theory Spec2Isabelle
  imports Complex_Main
begin

section \<open>Preliminaries\<close>

text \<open>
  The repository holds two Theano training scripts (\<^verbatim>\<open>sandbox/example2.py\<close>, a
  two-layer perceptron with constant initial weights, and \<^verbatim>\<open>sandbox/example3.py\<close>,
  a convolutional network with random initial weights) and a wrapper class around a GPU
  training library (\<^verbatim>\<open>src/ai/NeuralNet.py\<close>). The scripts are Python 2: \<^verbatim>\<open>/\<close> on two
  integers is floor division.

  Floating-point values are modelled as real numbers, so every statement below is about
  the exact arithmetic of finite values; rounding, infinities and NaN are outside the model.
\<close>

datatype pyerror =
  AssertionError | TypeError | ValueError | IndexError | ZeroDivisionError | OverflowError

text \<open>
  An array (a numpy array, or the value of a Theano tensor): its shape and its entries in
  row-major order.
\<close>

record tensor =
  shape :: "nat list"
  vals :: "real list"

definition ndim :: "tensor \<Rightarrow> nat" where
  "ndim t = length (shape t)"

text \<open>\<^verbatim>\<open>a.shape[i]\<close> for a literal index \<^verbatim>\<open>i\<close>: indexing a tuple past its end raises.\<close>

definition shape_at :: "tensor \<Rightarrow> nat \<Rightarrow> pyerror + int" where
  "shape_at a i = (if i < length (shape a) then Inr (int (shape a ! i)) else Inl IndexError)"

section \<open>The convolutional layer of example3.py\<close>

text \<open>
  \<^verbatim>\<open>filter_shape\<close> is (number of filters, input feature maps, filter height, filter
  width) and \<^verbatim>\<open>image_shape\<close> is (batch size, input feature maps, image height, image
  width), both of length 4 as the constructor's docstring requires.
\<close>

record shape4 =
  dim0 :: int
  dim1 :: int
  dim2 :: int
  dim3 :: int

text \<open>The arguments of one call of \<^verbatim>\<open>np.random.uniform(high=..., low=..., size=...)\<close>.\<close>

record uniform_args =
  high :: real
  low :: real
  size :: "int list"

record conv_layer =
  fan_in :: int
  fan_out :: int
  conv_W_init :: uniform_args

text \<open>
  \<^verbatim>\<open>feature_map_size=1+(image_shape[2]-filter_shape[2])/stride\<close>, on Python 2 integers.
  Python's floor division rounds towards minus infinity, as \<open>div\<close> on \<open>int\<close> does;
  dividing by zero raises.
\<close>

definition feature_map_size :: "shape4 \<Rightarrow> shape4 \<Rightarrow> int \<Rightarrow> pyerror + int" where
  "feature_map_size image_shape filter_shape stride =
     (if stride = 0 then Inl ZeroDivisionError
      else Inr (1 + (dim2 image_shape - dim2 filter_shape) div stride))"

text \<open>
  \<^verbatim>\<open>ConvolutionalLayer.__init__\<close> up to the arguments of the weight sampler. The sample
  itself and the symbolic convolution belong to numpy and Theano and are not modelled.
  \<^verbatim>\<open>np.prod\<close> is taken over unbounded integers (numpy's 64-bit product agrees below
  \<open>2^63\<close>), and \<open>W_bound\<close> is exact where \<open>fan_in + fan_out\<close> is positive.
\<close>

definition ConvolutionalLayer_init :: "shape4 \<Rightarrow> shape4 \<Rightarrow> int \<Rightarrow> pyerror + conv_layer" where
  "ConvolutionalLayer_init filter_shape image_shape stride =
     (if dim1 image_shape \<noteq> dim1 filter_shape then Inl AssertionError
      else
        let fan_in' = prod_list [dim1 filter_shape, dim2 filter_shape, dim3 filter_shape] in
        (case feature_map_size image_shape filter_shape stride of
           Inl e \<Rightarrow> Inl e
         | Inr fms \<Rightarrow>
             let fan_out' = dim0 filter_shape * fms * fms;
                 W_bound = sqrt (6 / real_of_int (fan_in' + fan_out'))
             in Inr \<lparr>fan_in = fan_in', fan_out = fan_out',
                     conv_W_init = \<lparr>high = W_bound, low = - W_bound,
                        size = [dim0 filter_shape, dim1 filter_shape,
                                dim2 filter_shape, dim3 filter_shape]\<rparr>\<rparr>))"

section \<open>NeuralNet.train\<close>

text \<open>
  The GPU library behind \<^verbatim>\<open>self.libmodel\<close> is opaque. It is modelled by the trace of
  the calls made to it; the cost that \<^verbatim>\<open>finishBatch\<close> returns is a function \<open>gpu\<close> of
  that trace, supplied from outside.
\<close>

datatype event = StartBatch "tensor list" int bool | FinishBatch

record neuralnet =
  nr_inputs :: int
  nr_outputs :: int
  libmodel :: "event list"

definition startBatch :: "tensor list \<Rightarrow> int \<Rightarrow> bool \<Rightarrow> event list \<Rightarrow> event list" where
  "startBatch data progress testOnly lm = lm @ [StartBatch data progress testOnly]"

definition finishBatch :: "(event list \<Rightarrow> real) \<Rightarrow> event list \<Rightarrow> real \<times> event list" where
  "finishBatch gpu lm = (gpu lm, lm @ [FinishBatch])"

text \<open>
  \<^verbatim>\<open>train\<close> returns the outcome together with the object's state after the call. The
  three \<^verbatim>\<open>assert\<close> statements run in the source's order, each reading the shape
  entries it needs.
\<close>

definition train ::
  "(event list \<Rightarrow> real) \<Rightarrow> neuralnet \<Rightarrow> tensor \<Rightarrow> tensor \<Rightarrow> (pyerror + real) \<times> neuralnet" where
  "train gpu self inputs outputs =
     (case shape_at inputs 0 of
        Inl e \<Rightarrow> (Inl e, self)
      | Inr i0 \<Rightarrow>
          if i0 \<noteq> nr_inputs self then (Inl AssertionError, self)
          else
            (case shape_at outputs 0 of
               Inl e \<Rightarrow> (Inl e, self)
             | Inr o0 \<Rightarrow>
                 if o0 \<noteq> nr_outputs self then (Inl AssertionError, self)
                 else
                   (case shape_at inputs 1 of
                      Inl e \<Rightarrow> (Inl e, self)
                    | Inr i1 \<Rightarrow>
                        (case shape_at outputs 1 of
                           Inl e \<Rightarrow> (Inl e, self)
                         | Inr o1 \<Rightarrow>
                             if i1 \<noteq> o1 then (Inl AssertionError, self)
                             else
                               let lm1 = startBatch [inputs, outputs] 1 False (libmodel self);
                                   (cost, lm2) = finishBatch gpu lm1
                               in (Inr cost, self\<lparr>libmodel := lm2\<rparr>)))))"

text \<open>The three preconditions of \<^verbatim>\<open>train\<close>, for arrays with at least two axes.\<close>

definition train_pre :: "neuralnet \<Rightarrow> tensor \<Rightarrow> tensor \<Rightarrow> bool" where
  "train_pre self inputs outputs =
     (int (shape inputs ! 0) = nr_inputs self \<and>
      int (shape outputs ! 0) = nr_outputs self \<and>
      shape inputs ! 1 = shape outputs ! 1)"

section \<open>Random weight initialisation in example3.py\<close>

text \<open>
  \<^verbatim>\<open>HiddenLayer.__init__\<close> and \<^verbatim>\<open>OutputLayer.__init__\<close> of example3.py, up to the
  arguments they pass to \<^verbatim>\<open>np.random.uniform\<close>. \<^verbatim>\<open>6. / (n_in + n_nodes)\<close> divides a
  Python float by a Python integer and raises when the integer is zero; the square root
  is exact where \<open>n_in + n_nodes\<close> is positive.
\<close>

definition HiddenLayer3_W_init :: "int \<Rightarrow> int \<Rightarrow> pyerror + uniform_args" where
  "HiddenLayer3_W_init n_in n_nodes =
     (if n_in + n_nodes = 0 then Inl ZeroDivisionError
      else
        let W_bound = sqrt (6 / real_of_int (n_in + n_nodes))
        in Inr \<lparr>high = W_bound, low = - W_bound, size = [n_in, n_nodes]\<rparr>)"

definition OutputLayer3_W_init :: "int \<Rightarrow> int \<Rightarrow> pyerror + uniform_args" where
  "OutputLayer3_W_init n_in n_nodes =
     (if n_in + n_nodes = 0 then Inl ZeroDivisionError
      else
        let W_bound = - sqrt (6 / real_of_int (n_in + n_nodes))
        in Inr \<lparr>high = W_bound, low = - W_bound, size = [n_in, n_nodes]\<rparr>)"

section \<open>The tensor engine\<close>

text \<open>
  The Theano operations the scripts call, on values. Theano is external to the
  repository; the operations are modelled for the tensor types the scripts declare
  (\<^verbatim>\<open>T.matrix\<close> variables and shared arrays, none with a broadcastable axis): an
  elementwise operation on two tensors needs equal shapes and raises ValueError
  otherwise, and binding a value of another rank to a matrix raises TypeError.
\<close>

definition tmap :: "(real \<Rightarrow> real) \<Rightarrow> tensor \<Rightarrow> tensor" where
  "tmap f a = \<lparr>shape = shape a, vals = map f (vals a)\<rparr>"

definition elemwise :: "(real \<Rightarrow> real \<Rightarrow> real) \<Rightarrow> tensor \<Rightarrow> tensor \<Rightarrow> pyerror + tensor" where
  "elemwise f a c =
     (if shape a = shape c then Inr \<lparr>shape = shape a, vals = map2 f (vals a) (vals c)\<rparr>
      else Inl ValueError)"

text \<open>
  \<^verbatim>\<open>T.mean(a)\<close> with no axis: the mean of all entries, a scalar. (The mean of no
  entries is NaN in floating point and 0 here.)
\<close>

definition T_mean :: "tensor \<Rightarrow> real" where
  "T_mean a = sum_list (vals a) / real (length (vals a))"

text \<open>\<^verbatim>\<open>a.sum()\<close>: the sum of all entries.\<close>

definition T_sum :: "tensor \<Rightarrow> real" where
  "T_sum a = sum_list (vals a)"

text \<open>
  \<^verbatim>\<open>T.dot(a, w)\<close> of two matrices, entries read in row-major order from well-formed
  operands.
\<close>

definition dot :: "tensor \<Rightarrow> tensor \<Rightarrow> pyerror + tensor" where
  "dot a w =
     (case (shape a, shape w) of
        ([m, k], [k', n]) \<Rightarrow>
          if k = k'
          then Inr \<lparr>shape = [m, n],
                 vals = concat (map (\<lambda>i. map (\<lambda>j.
                    (\<Sum>l\<leftarrow>[0..<k]. vals a ! (i * k + l) * vals w ! (l * n + j))) [0..<n]) [0..<m])\<rparr>
          else Inl ValueError
      | _ \<Rightarrow> Inl TypeError)"

text \<open>A matrix plus a bias vector: the vector is added to every row.\<close>

definition add_bias :: "tensor \<Rightarrow> tensor \<Rightarrow> pyerror + tensor" where
  "add_bias d bias =
     (case (shape d, shape bias) of
        ([m, n], [n']) \<Rightarrow>
          if n = n'
          then Inr \<lparr>shape = [m, n],
                 vals = concat (map (\<lambda>i. map (\<lambda>j. vals d ! (i * n + j) + vals bias ! j) [0..<n])
                          [0..<m])\<rparr>
          else Inl ValueError
      | _ \<Rightarrow> Inl TypeError)"

text \<open>
  \<^verbatim>\<open>a[index]\<close> along the first axis. A negative index counts from the end, an index
  outside \<open>[-n, n)\<close> raises IndexError, and so does indexing a scalar.
\<close>

definition subtensor :: "tensor \<Rightarrow> int \<Rightarrow> pyerror + tensor" where
  "subtensor a index =
     (case shape a of
        [] \<Rightarrow> Inl IndexError
      | n # rest \<Rightarrow>
          let j = (if index < 0 then int n + index else index)
          in if 0 \<le> j \<and> j < int n
             then Inr \<lparr>shape = rest,
                    vals = take (prod_list rest) (drop (nat j * prod_list rest) (vals a))\<rparr>
             else Inl IndexError)"

text \<open>\<^verbatim>\<open>np.ones(dims)\<close> and \<^verbatim>\<open>np.zeros(dims)\<close>: a negative dimension raises.\<close>

definition filled :: "real \<Rightarrow> int list \<Rightarrow> pyerror + tensor" where
  "filled v dims =
     (if \<exists>d\<in>set dims. d < 0 then Inl ValueError
      else Inr \<lparr>shape = map nat dims, vals = replicate (prod_list (map nat dims)) v\<rparr>)"

section \<open>Layers\<close>

text \<open>
  \<^verbatim>\<open>HiddenLayer.output\<close>, the same expression in both scripts:
  \<^verbatim>\<open>T.dot(input, self.W) + self.b\<close>.
\<close>

definition HiddenLayer_output :: "tensor \<Rightarrow> tensor \<Rightarrow> tensor \<Rightarrow> pyerror + tensor" where
  "HiddenLayer_output input W b =
     (case dot input W of Inl e \<Rightarrow> Inl e | Inr d \<Rightarrow> add_bias d b)"

text \<open>
  \<^verbatim>\<open>OutputLayer.output\<close>, the same expression in both scripts; \<^verbatim>\<open>self.threshold\<close> is
  1 in example2.py and 0 in example3.py. The comparison yields 1 where it holds and 0
  elsewhere.
\<close>

definition OutputLayer_output :: "real \<Rightarrow> tensor \<Rightarrow> tensor \<Rightarrow> tensor \<Rightarrow> pyerror + tensor" where
  "OutputLayer_output threshold input_from_previous_layer W b =
     (case dot input_from_previous_layer W of
        Inl e \<Rightarrow> Inl e
      | Inr d \<Rightarrow>
          (case add_bias d b of
             Inl e \<Rightarrow> Inl e
           | Inr lin_output \<Rightarrow>
               let above_threshold = tmap (\<lambda>v. if v > threshold then 1 else 0) lin_output
               in elemwise (*) above_threshold (tmap (\<lambda>v. v - threshold) lin_output)))"

text \<open>
  \<^verbatim>\<open>OutputLayer.errors\<close>, the same in both scripts, as a function of the layer's output
  and of \<open>y\<close>: the check compares the numbers of axes, and the value is
  \<^verbatim>\<open>np.abs(T.mean(self.output-y))\<close>.
\<close>

definition errors :: "tensor \<Rightarrow> tensor \<Rightarrow> pyerror + real" where
  "errors output y =
     (if ndim y \<noteq> ndim output then Inl TypeError
      else
        (case elemwise (-) output y of
           Inl e \<Rightarrow> Inl e
         | Inr d \<Rightarrow> Inr \<bar>T_mean d\<bar>))"

text \<open>
  The constant initial values of example2.py, the same in \<^verbatim>\<open>HiddenLayer.__init__\<close> and
  \<^verbatim>\<open>OutputLayer.__init__\<close>: \<^verbatim>\<open>np.ones((n_in, n_nodes)) * 2\<close> and
  \<^verbatim>\<open>np.zeros((n_nodes,))\<close>.
\<close>

definition W_values :: "int \<Rightarrow> int \<Rightarrow> pyerror + tensor" where
  "W_values n_in n_nodes =
     (case filled 1 [n_in, n_nodes] of Inl e \<Rightarrow> Inl e | Inr ones \<Rightarrow> Inr (tmap (\<lambda>v. v * 2) ones))"

definition b_values :: "int \<Rightarrow> pyerror + tensor" where
  "b_values n_nodes = filled 0 [n_nodes]"

section \<open>The training step\<close>

text \<open>
  The shared variables that hold parameters. Both scripts name the weights \<^verbatim>\<open>W\<close> and
  the biases \<^verbatim>\<open>b\<close> in every layer; they are distinct objects, told apart here by layer.
\<close>

datatype param = HiddenW | HiddenB | OutputW | OutputB | ConvW | ConvB

type_synonym store = "param \<Rightarrow> tensor"

definition HiddenLayer_params :: "param list" where
  "HiddenLayer_params = [HiddenW, HiddenB]"

definition OutputLayer_params :: "param list" where
  "OutputLayer_params = [OutputW, OutputB]"

definition ConvolutionalLayer_params :: "param list" where
  "ConvolutionalLayer_params = [ConvW, ConvB]"

text \<open>\<^verbatim>\<open>MLP.params\<close> in example2.py and in example3.py.\<close>

definition MLP2_params :: "param list" where
  "MLP2_params = HiddenLayer_params @ OutputLayer_params"

definition MLP3_params :: "param list" where
  "MLP3_params = HiddenLayer_params @ OutputLayer_params @ ConvolutionalLayer_params"

text \<open>
  \<^verbatim>\<open>T.grad(cost, param)\<close> belongs to Theano. Its value at the current parameters and
  batch is a function \<open>grad\<close> supplied from outside; a symbolic expression is modelled by
  the function from the store that evaluates it.
\<close>

definition gparams :: "(param \<Rightarrow> store \<Rightarrow> tensor) \<Rightarrow> param list \<Rightarrow> (store \<Rightarrow> tensor) list" where
  "gparams grad params = map (\<lambda>param. grad param) params"

text \<open>
  \<^verbatim>\<open>for param, gparam in zip(classifier.params, gparams):
      updates.append((param, param - learning_rate * gparam))\<close>
\<close>

definition updates ::
  "real \<Rightarrow> param list \<Rightarrow> (store \<Rightarrow> tensor) list \<Rightarrow> (param \<times> (store \<Rightarrow> pyerror + tensor)) list" where
  "updates learning_rate params gs =
     map (\<lambda>(param, gparam).
            (param, \<lambda>s. elemwise (-) (s param) (tmap (\<lambda>v. learning_rate * v) (gparam s))))
         (zip params gs)"

text \<open>
  A call of the compiled \<^verbatim>\<open>train_model\<close>: the cost and every new value are computed
  from the parameters before the call, then the new values are stored. A failure leaves
  the parameters as they were.
\<close>

fun eval_updates ::
  "(param \<times> (store \<Rightarrow> pyerror + tensor)) list \<Rightarrow> store \<Rightarrow> pyerror + (param \<times> tensor) list" where
  "eval_updates [] s = Inr []"
| "eval_updates ((p, e) # us) s =
     (case e s of
        Inl err \<Rightarrow> Inl err
      | Inr v \<Rightarrow> (case eval_updates us s of Inl err \<Rightarrow> Inl err | Inr vs \<Rightarrow> Inr ((p, v) # vs)))"

definition assign :: "(param \<times> tensor) list \<Rightarrow> store \<Rightarrow> store" where
  "assign vs s = fold (\<lambda>(p, v) s'. s'(p := v)) vs s"

definition train_model ::
  "param list \<Rightarrow> (store \<Rightarrow> pyerror + real) \<Rightarrow> (param \<Rightarrow> store \<Rightarrow> tensor) \<Rightarrow> real \<Rightarrow> store
     \<Rightarrow> pyerror + real \<times> store" where
  "train_model params cost grad learning_rate s =
     (case cost s of
        Inl e \<Rightarrow> Inl e
      | Inr c \<Rightarrow>
          (case eval_updates (updates learning_rate params (gparams grad params)) s of
             Inl e \<Rightarrow> Inl e
           | Inr vs \<Rightarrow> Inr (c, assign vs s)))"

section \<open>Batch lookup\<close>

text \<open>
  \<^verbatim>\<open>shared_dataset\<close> wraps the two arrays into shared variables without changing their
  values, and the compiled functions read one batch through
  \<^verbatim>\<open>givens={x: train_set_x[index], y: train_set_y[index]}\<close>. The index is declared
  \<^verbatim>\<open>index = T.lscalar()\<close>, a signed 64-bit integer: a Python integer outside
  \<open>[-2^63, 2^63)\<close> is refused with OverflowError when the function is called, before any
  lookup.
\<close>

definition shared_dataset :: "tensor \<times> tensor \<Rightarrow> tensor \<times> tensor" where
  "shared_dataset data_xy = (case data_xy of (data_x, data_y) \<Rightarrow> (data_x, data_y))"

definition givens :: "tensor \<times> tensor \<Rightarrow> int \<Rightarrow> pyerror + tensor \<times> tensor" where
  "givens train_set index =
     (if index < - (2 ^ 63) \<or> 2 ^ 63 \<le> index then Inl OverflowError
      else
        (case train_set of (train_set_x, train_set_y) \<Rightarrow>
           (case subtensor train_set_x index of
              Inl e \<Rightarrow> Inl e
            | Inr x \<Rightarrow>
                (case subtensor train_set_y index of Inl e \<Rightarrow> Inl e | Inr y \<Rightarrow> Inr (x, y)))))"

text \<open>
  \<^verbatim>\<open>SimpleDataProvider.get_data_dims\<close>; the class attribute \<^verbatim>\<open>dims\<close> is \<^verbatim>\<open>None\<close> until a
  \<^verbatim>\<open>NeuralNet\<close> is constructed.
\<close>

definition get_data_dims :: "int list option \<Rightarrow> int \<Rightarrow> pyerror + int" where
  "get_data_dims dims idx =
     (case dims of
        None \<Rightarrow> Inl AssertionError
      | Some ds \<Rightarrow>
          if idx \<ge> 0 \<and> idx < int (length ds) then Inr (ds ! nat idx) else Inl AssertionError)"

section \<open>The one-layer network and the quantities the properties speak of\<close>

text \<open>An array is well formed when it has as many entries as its shape says.\<close>

definition wf_tensor :: "tensor \<Rightarrow> bool" where
  "wf_tensor a = (length (vals a) = prod_list (shape a))"

text \<open>
  The mean absolute error \<open>mean(|predicted - target|)\<close>, written from the specification's
  words, to be compared with \<open>errors\<close>.
\<close>

definition spec_mean_absolute_error :: "tensor \<Rightarrow> tensor \<Rightarrow> real" where
  "spec_mean_absolute_error predicted target =
     sum_list (map2 (\<lambda>p t. \<bar>p - t\<bar>) (vals predicted) (vals target))
       / real (length (vals predicted))"

text \<open>The value \<open>p - learning_rate * g\<close>, entry by entry.\<close>

definition gd_value :: "real \<Rightarrow> tensor \<Rightarrow> tensor \<Rightarrow> tensor" where
  "gd_value learning_rate p g =
     \<lparr>shape = shape p, vals = map2 (\<lambda>w d. w - learning_rate * d) (vals p) (vals g)\<rparr>"

text \<open>
  The regularisation terms of \<^verbatim>\<open>MLP.__init__\<close>: \<^verbatim>\<open>abs(W).sum()\<close> and
  \<^verbatim>\<open>(W ** 2).sum()\<close>, summed over the weight matrices of the network.
\<close>

definition L1 :: "tensor list \<Rightarrow> real" where
  "L1 Ws = (\<Sum>W\<leftarrow>Ws. T_sum (tmap abs W))"

definition L2_sqr :: "tensor list \<Rightarrow> real" where
  "L2_sqr Ws = (\<Sum>W\<leftarrow>Ws. T_sum (tmap (\<lambda>w. w\<^sup>2) W))"

text \<open>
  A network of one \<^verbatim>\<open>HiddenLayer\<close> with the cost of \<^verbatim>\<open>main\<close>:
  \<^verbatim>\<open>errors(y) + 0.0 * L1 + 0.0 * L2_sqr\<close>, applied to the layer's output.
\<close>

definition affine_cost :: "tensor \<Rightarrow> tensor \<Rightarrow> store \<Rightarrow> pyerror + real" where
  "affine_cost x y s =
     (case HiddenLayer_output x (s HiddenW) (s HiddenB) of
        Inl e \<Rightarrow> Inl e
      | Inr output \<Rightarrow>
          (case errors output y of
             Inl e \<Rightarrow> Inl e
           | Inr err \<Rightarrow> Inr (err + 0 * L1 [s HiddenW] + 0 * L2_sqr [s HiddenW])))"

text \<open>
  Modelled from the spec: the tensor engine's reverse-mode gradient of the cost with
  respect to a parameter (\<^verbatim>\<open>T.grad(cost, param)\<close>), which the repository calls and does
  not contain. For the one-layer network the cost is \<open>|mean(output - y)|\<close>, so its
  derivative with respect to every output entry is \<open>g = sgn(mean) / N\<close> with \<open>N\<close> the
  number of output entries; \<open>W[i][j]\<close> receives the sum over the rows \<open>r\<close> of
  \<open>x[r][i] * g\<close> and \<open>b[j]\<close> the sum over the rows of \<open>g\<close>. The regularisation terms carry
  the factor 0.0 and add nothing. Where the forward pass fails the cost fails first and
  the gradient is never read.
\<close>

definition affine_grad :: "tensor \<Rightarrow> tensor \<Rightarrow> param \<Rightarrow> store \<Rightarrow> tensor" where
  "affine_grad x y param s =
     (case HiddenLayer_output x (s HiddenW) (s HiddenB) of
        Inl e \<Rightarrow> tmap (\<lambda>_. 0) (s param)
      | Inr output \<Rightarrow>
          let N = real (length (vals output));
              g = sgn (sum_list (map2 (-) (vals output) (vals y)) / N) / N;
              m = shape x ! 0; k = shape x ! 1; n = shape output ! 1
          in (case param of
                HiddenW \<Rightarrow>
                  \<lparr>shape = [k, n],
                   vals = concat (map (\<lambda>i. map (\<lambda>j.
                            (\<Sum>r\<leftarrow>[0..<m]. vals x ! (r * k + i) * g)) [0..<n]) [0..<k])\<rparr>
              | HiddenB \<Rightarrow> \<lparr>shape = [n], vals = map (\<lambda>j. (\<Sum>r\<leftarrow>[0..<m]. g)) [0..<n]\<rparr>
              | _ \<Rightarrow> tmap (\<lambda>_. 0) (s param)))"

text \<open>The parameters of the one-layer network; the other layers' slots hold empty arrays.\<close>

definition affine_store :: "tensor \<Rightarrow> tensor \<Rightarrow> store" where
  "affine_store W b = (\<lambda>_. \<lparr>shape = [0], vals = []\<rparr>)(HiddenW := W, HiddenB := b)"

section \<open>Properties of the convolutional layer\<close>

lemma floor_one_plus_quotient:
  fixes a s :: int
  shows "\<lfloor>1 + real_of_int a / real_of_int s\<rfloor> = 1 + a div s"
proof -
  have "\<lfloor>1 + real_of_int a / real_of_int s\<rfloor> = 1 + \<lfloor>real_of_int a / real_of_int s\<rfloor>"
    by linarith
  also have "\<lfloor>real_of_int a / real_of_int s\<rfloor> = a div s"
    by (simp add: floor_divide_of_int_eq)
  finally show ?thesis .
qed

text \<open>
  C4. For a layer whose channel counts agree and whose stride is not zero, construction
  succeeds and \<open>fan_out\<close> is the number of filters times the square of
  \<open>\<lfloor>1 + (image_size - filter_size) / stride\<rfloor>\<close>, the quotient taken in the reals.
  (With stride zero the division raises and the formula has no value either.)
\<close>

theorem fan_out_formula:
  assumes "dim1 image_shape = dim1 filter_shape" and "stride \<noteq> 0"
  shows "feature_map_size image_shape filter_shape stride =
           Inr \<lfloor>1 + real_of_int (dim2 image_shape - dim2 filter_shape) / real_of_int stride\<rfloor> \<and>
         (\<exists>layer. ConvolutionalLayer_init filter_shape image_shape stride = Inr layer \<and>
           fan_out layer =
             dim0 filter_shape *
               \<lfloor>1 + real_of_int (dim2 image_shape - dim2 filter_shape) / real_of_int stride\<rfloor>\<^sup>2)"
proof -
  let ?fms = "1 + (dim2 image_shape - dim2 filter_shape) div stride"
  have fl: "\<lfloor>1 + real_of_int (dim2 image_shape - dim2 filter_shape) / real_of_int stride\<rfloor> = ?fms"
    by (rule floor_one_plus_quotient)
  from assms obtain layer where
    init: "ConvolutionalLayer_init filter_shape image_shape stride = Inr layer" and
    out: "fan_out layer = dim0 filter_shape * ?fms * ?fms"
    by (simp add: ConvolutionalLayer_init_def feature_map_size_def Let_def)
  from out have "fan_out layer = dim0 filter_shape * ?fms\<^sup>2"
    by (simp only: power2_eq_square mult.assoc)
  moreover from assms have "feature_map_size image_shape filter_shape stride = Inr ?fms"
    by (simp add: feature_map_size_def)
  ultimately show ?thesis
    using init unfolding fl by blast
qed

theorem fan_out_formula_witness:
  "feature_map_size \<lparr>dim0 = 1, dim1 = 1, dim2 = 84, dim3 = 84\<rparr>
      \<lparr>dim0 = 16, dim1 = 1, dim2 = 8, dim3 = 8\<rparr> 4 = Inr 20 \<and>
   (\<exists>layer. ConvolutionalLayer_init \<lparr>dim0 = 16, dim1 = 1, dim2 = 8, dim3 = 8\<rparr>
              \<lparr>dim0 = 1, dim1 = 1, dim2 = 84, dim3 = 84\<rparr> 4 = Inr layer \<and>
           fan_out layer = 6400)"
proof -
  have "\<lfloor>1 + real_of_int (84 - 8) / real_of_int 4\<rfloor> = (20::int)"
    by (simp add: floor_one_plus_quotient)
  then show ?thesis
    using fan_out_formula [of "\<lparr>dim0 = 1, dim1 = 1, dim2 = 84, dim3 = 84\<rparr>"
        "\<lparr>dim0 = 16, dim1 = 1, dim2 = 8, dim3 = 8\<rparr>" 4]
    by simp
qed

text \<open>
  C8. Construction fails on the channel assertion exactly when the image's channel count
  differs from the filter's; with equal channel counts that assertion never fails.
\<close>

theorem channel_mismatch_rejected:
  "(ConvolutionalLayer_init filter_shape image_shape stride = Inl AssertionError)
     = (dim1 image_shape \<noteq> dim1 filter_shape)"
  by (simp add: ConvolutionalLayer_init_def feature_map_size_def Let_def)

section \<open>Properties of NeuralNet.train\<close>

lemma train_state_unchanged_on_error:
  "fst (train gpu self inputs outputs) = Inl e \<Longrightarrow> snd (train gpu self inputs outputs) = self"
  by (auto simp: train_def Let_def finishBatch_def split: sum.splits if_splits)

lemma train_two_axes:
  assumes "2 \<le> length (shape inputs)" and "2 \<le> length (shape outputs)"
  shows "train gpu self inputs outputs =
           (if train_pre self inputs outputs
            then (Inr (gpu (libmodel self @ [StartBatch [inputs, outputs] 1 False])),
                  self\<lparr>libmodel :=
                    libmodel self @ [StartBatch [inputs, outputs] 1 False, FinishBatch]\<rparr>)
            else (Inl AssertionError, self))"
  using assms
  by (auto simp: train_def train_pre_def shape_at_def startBatch_def finishBatch_def Let_def)

lemma train_few_axes:
  assumes "length (shape inputs) < 2 \<or> length (shape outputs) < 2"
  shows "train gpu self inputs outputs = (Inl AssertionError, self) \<or>
         train gpu self inputs outputs = (Inl IndexError, self)"
  using assms
  by (auto simp: train_def shape_at_def Let_def split: sum.splits)

text \<open>
  C10, as the code has it. For every call: the batch is handed to \<^verbatim>\<open>startBatch\<close> and
  then \<^verbatim>\<open>finishBatch\<close> exactly when both arrays have at least two axes and the three
  preconditions hold. Every other call fails with the object, and so the trace of
  library calls, unchanged: with AssertionError when both arrays have at least two axes,
  and with AssertionError or IndexError when one of them has fewer, the IndexError
  coming from the shape entry that does not exist.
\<close>

theorem train_dispatch_iff:
  "(if 2 \<le> length (shape inputs) \<and> 2 \<le> length (shape outputs) \<and> train_pre self inputs outputs
    then train gpu self inputs outputs =
           (Inr (gpu (libmodel self @ [StartBatch [inputs, outputs] 1 False])),
            self\<lparr>libmodel :=
              libmodel self @ [StartBatch [inputs, outputs] 1 False, FinishBatch]\<rparr>)
    else train gpu self inputs outputs = (Inl AssertionError, self) \<or>
         (train gpu self inputs outputs = (Inl IndexError, self) \<and>
          (length (shape inputs) < 2 \<or> length (shape outputs) < 2)))"
proof (cases "2 \<le> length (shape inputs) \<and> 2 \<le> length (shape outputs)")
  case True
  then show ?thesis
    using train_two_axes [of inputs outputs gpu self] by simp
next
  case False
  then have few: "length (shape inputs) < 2 \<or> length (shape outputs) < 2"
    by linarith
  from train_few_axes [OF few, of gpu self] few False show ?thesis
    by auto
qed

theorem train_dispatch_iff_witness:
  "train (\<lambda>_. 0) \<lparr>nr_inputs = 3, nr_outputs = 1, libmodel = []\<rparr>
      \<lparr>shape = [3, 2], vals = [1, 2, 3, 4, 5, 6]\<rparr> \<lparr>shape = [1, 2], vals = [1, 0]\<rparr>
     = (Inr 0, \<lparr>nr_inputs = 3, nr_outputs = 1,
          libmodel = [StartBatch [\<lparr>shape = [3, 2], vals = [1, 2, 3, 4, 5, 6]\<rparr>,
                                  \<lparr>shape = [1, 2], vals = [1, 0]\<rparr>] 1 False, FinishBatch]\<rparr>)
   \<and> train (\<lambda>_. 0) \<lparr>nr_inputs = 3, nr_outputs = 1, libmodel = []\<rparr>
      \<lparr>shape = [3, 2], vals = [1, 2, 3, 4, 5, 6]\<rparr> \<lparr>shape = [2, 2], vals = [1, 0, 0, 1]\<rparr>
     = (Inl AssertionError, \<lparr>nr_inputs = 3, nr_outputs = 1, libmodel = []\<rparr>)"
  using train_dispatch_iff [of "\<lparr>shape = [3, 2], vals = [1, 2, 3, 4, 5, 6]\<rparr>"
      "\<lparr>shape = [1, 2], vals = [1, 0]\<rparr>" "\<lparr>nr_inputs = 3, nr_outputs = 1, libmodel = []\<rparr>"
      "\<lambda>_. 0"]
    train_dispatch_iff [of "\<lparr>shape = [3, 2], vals = [1, 2, 3, 4, 5, 6]\<rparr>"
      "\<lparr>shape = [2, 2], vals = [1, 0, 0, 1]\<rparr>"
      "\<lparr>nr_inputs = 3, nr_outputs = 1, libmodel = []\<rparr>" "\<lambda>_. 0"]
  by (simp add: train_pre_def)

text \<open>
  Arrays with one axis whose lengths match \<^verbatim>\<open>nr_inputs\<close> and \<^verbatim>\<open>nr_outputs\<close> pass the
  first two assertions; the third reads \<^verbatim>\<open>inputs.shape[1]\<close>, which does not exist, and
  the call ends in IndexError, not AssertionError.
\<close>

theorem train_one_axis_counterexample:
  "train (\<lambda>_. 0) \<lparr>nr_inputs = 3, nr_outputs = 1, libmodel = []\<rparr>
      \<lparr>shape = [3], vals = [1, 2, 3]\<rparr> \<lparr>shape = [1], vals = [1]\<rparr>
     = (Inl IndexError, \<lparr>nr_inputs = 3, nr_outputs = 1, libmodel = []\<rparr>)"
  by (simp add: train_def shape_at_def)

section \<open>Properties of the error function\<close>

text \<open>
  C1, as the code has it. For well-formed tensors of identical shape, \<open>errors\<close> returns the
  absolute value of the mean of the signed differences, \<open>|mean(predicted - target)|\<close>.
\<close>

theorem errors_abs_of_mean:
  assumes "wf_tensor output" and "wf_tensor y" and "shape output = shape y"
  shows "errors output y =
           Inr \<bar>sum_list (map2 (-) (vals output) (vals y)) / real (length (vals output))\<bar>"
  using assms
  by (simp add: errors_def ndim_def elemwise_def T_mean_def wf_tensor_def)

theorem errors_abs_of_mean_witness:
  "errors \<lparr>shape = [2, 1], vals = [3, 0]\<rparr> \<lparr>shape = [2, 1], vals = [0, 1]\<rparr> = Inr 1"
  using errors_abs_of_mean
    [of "\<lparr>shape = [2, 1], vals = [3, 0]\<rparr>" "\<lparr>shape = [2, 1], vals = [0, 1]\<rparr>"]
  by (simp add: wf_tensor_def)

text \<open>
  Differences of opposite sign cancel in \<open>errors\<close> and do not in the mean absolute error:
  for predictions \<open>[[2], [0]]\<close> and targets \<open>[[0], [2]]\<close> the first is 0 and the second 2.
\<close>

theorem errors_mean_abs_counterexample:
  "errors \<lparr>shape = [2, 1], vals = [2, 0]\<rparr> \<lparr>shape = [2, 1], vals = [0, 2]\<rparr> = Inr 0 \<and>
   spec_mean_absolute_error \<lparr>shape = [2, 1], vals = [2, 0]\<rparr> \<lparr>shape = [2, 1], vals = [0, 2]\<rparr>
     = 2"
  by (simp add: errors_def ndim_def elemwise_def T_mean_def spec_mean_absolute_error_def)

lemma errors_raises_iff_rank_differs:
  "(errors output y = Inl TypeError) = (ndim y \<noteq> ndim output)"
  by (simp add: errors_def elemwise_def)

lemma errors_rank_example:
  "shape output = [2, 1] \<Longrightarrow> shape y = [2] \<Longrightarrow> errors output y = Inl TypeError"
  by (simp add: errors_def ndim_def)

lemma errors_equal_rank_engine:
  "ndim y = ndim output \<Longrightarrow> shape y \<noteq> shape output \<Longrightarrow> errors output y = Inl ValueError"
  by (auto simp add: errors_def elemwise_def)

text \<open>
  C2. The error computation fails exactly when the shapes of the two tensors differ: with
  the TypeError of the check when they differ in rank, as shapes (2,1) and (2,) do, and
  with the engine's ValueError, raised by the subtraction, when the ranks agree and a
  dimension differs. Both are the failure on mismatched shapes that the specification
  calls ShapeMismatchError.
\<close>

theorem errors_fails_on_shape_mismatch:
  "(\<exists>e. errors output y = Inl e) = (shape output \<noteq> shape y) \<and>
   (shape output \<noteq> shape y \<longrightarrow>
      errors output y = Inl (if ndim y \<noteq> ndim output then TypeError else ValueError))"
proof (cases "shape output = shape y")
  case True
  then show ?thesis
    by (simp add: errors_def ndim_def elemwise_def)
next
  case False
  then have "errors output y = Inl (if ndim y \<noteq> ndim output then TypeError else ValueError)"
    by (auto simp: errors_def elemwise_def)
  with False show ?thesis by simp
qed

theorem errors_fails_on_shape_mismatch_witness:
  "errors \<lparr>shape = [2, 1], vals = [1, 2]\<rparr> \<lparr>shape = [2], vals = [1, 2]\<rparr> = Inl TypeError \<and>
   errors \<lparr>shape = [2, 1], vals = [1, 2]\<rparr> \<lparr>shape = [1, 2], vals = [1, 2]\<rparr> = Inl ValueError"
  using errors_fails_on_shape_mismatch
      [of "\<lparr>shape = [2, 1], vals = [1, 2]\<rparr>" "\<lparr>shape = [2], vals = [1, 2]\<rparr>"]
    errors_fails_on_shape_mismatch
      [of "\<lparr>shape = [2, 1], vals = [1, 2]\<rparr>" "\<lparr>shape = [1, 2], vals = [1, 2]\<rparr>"]
  by (simp add: ndim_def)

section \<open>Properties of the weight sampler's arguments\<close>

text \<open>
  C3. \<^verbatim>\<open>OutputLayer\<close> of example3.py, as \<^verbatim>\<open>main\<close> builds it (40 inputs, 1 node),
  passes \<open>high = - sqrt(6/41)\<close> and \<open>low = sqrt(6/41)\<close> to the sampler: the two bounds are
  exchanged.
\<close>

theorem OutputLayer3_bounds_inverted:
  "OutputLayer3_W_init 40 1 =
     Inr \<lparr>high = - sqrt (6 / 41), low = sqrt (6 / 41), size = [40, 1]\<rparr>"
  by (simp add: OutputLayer3_W_init_def)

text \<open>The same holds for every layer size, and the two other layers pass the bounds in order.\<close>

lemma OutputLayer3_high_below_low:
  assumes "0 < n_in + n_nodes" and "OutputLayer3_W_init n_in n_nodes = Inr args"
  shows "high args = - sqrt (6 / real_of_int (n_in + n_nodes))"
    and "low args = sqrt (6 / real_of_int (n_in + n_nodes))"
    and "high args < low args"
  using assms by (auto simp: OutputLayer3_W_init_def Let_def)

lemma HiddenLayer3_bounds:
  assumes "0 < n_in + n_nodes"
  shows "HiddenLayer3_W_init n_in n_nodes =
           Inr \<lparr>high = sqrt (6 / real_of_int (n_in + n_nodes)),
                low = - sqrt (6 / real_of_int (n_in + n_nodes)), size = [n_in, n_nodes]\<rparr>"
  using assms by (simp add: HiddenLayer3_W_init_def Let_def)

lemma ConvolutionalLayer_bounds:
  assumes "ConvolutionalLayer_init filter_shape image_shape stride = Inr layer"
  shows "high (conv_W_init layer) = sqrt (6 / real_of_int (fan_in layer + fan_out layer))"
    and "low (conv_W_init layer) = - sqrt (6 / real_of_int (fan_in layer + fan_out layer))"
  using assms
  by (auto simp: ConvolutionalLayer_init_def Let_def split: if_splits sum.splits)

section \<open>Properties of the output layer\<close>

lemma elemwise_tmap:
  "elemwise f (tmap g a) (tmap h a) = Inr (tmap (\<lambda>v. f (g v) (h v)) a)"
  by (simp add: elemwise_def tmap_def map2_map_map)

lemma rectify: "(if v > t then 1 else 0) * (v - t) = max (v - t) (0::real)"
  by (simp add: max_def)

text \<open>
  C7. Whatever the input, the weights, the bias and the threshold, the output layer fails
  where the affine layer fails, and otherwise its output is \<open>max(affine_output - threshold, 0)\<close>
  entry by entry; so no entry of it is negative, and with threshold 0 it is the positive
  part of the affine output.
\<close>

theorem output_layer_rectifies:
  "OutputLayer_output threshold input W b =
     (case HiddenLayer_output input W b of
        Inl e \<Rightarrow> Inl e
      | Inr lin_output \<Rightarrow> Inr (tmap (\<lambda>v. max (v - threshold) 0) lin_output)) \<and>
   (\<forall>out. OutputLayer_output threshold input W b = Inr out \<longrightarrow> (\<forall>v\<in>set (vals out). 0 \<le> v)) \<and>
   OutputLayer_output 0 input W b =
     (case HiddenLayer_output input W b of
        Inl e \<Rightarrow> Inl e
      | Inr lin_output \<Rightarrow> Inr (tmap (\<lambda>v. max v 0) lin_output))"
proof -
  have eq: "OutputLayer_output t input W b =
     (case HiddenLayer_output input W b of
        Inl e \<Rightarrow> Inl e
      | Inr lin_output \<Rightarrow> Inr (tmap (\<lambda>v. max (v - t) 0) lin_output))" for t
    by (simp add: OutputLayer_output_def HiddenLayer_output_def elemwise_tmap rectify
        split: sum.splits)
  have nonneg: "\<forall>v\<in>set (vals out). 0 \<le> v"
    if "OutputLayer_output threshold input W b = Inr out" for out
    using that unfolding eq by (auto simp: tmap_def split: sum.splits)
  have zero: "(\<lambda>v::real. max (v - 0) 0) = (\<lambda>v. max v 0)"
    by simp
  from eq [of threshold] eq [of 0] nonneg show ?thesis
    unfolding zero by blast
qed

theorem output_layer_rectifies_witness:
  "HiddenLayer_output \<lparr>shape = [2, 2], vals = [1, 1, 0, 0]\<rparr>
      \<lparr>shape = [2, 1], vals = [2, 2]\<rparr> \<lparr>shape = [1], vals = [0]\<rparr>
     = Inr \<lparr>shape = [2, 1], vals = [4, 0]\<rparr> \<and>
   OutputLayer_output 1 \<lparr>shape = [2, 2], vals = [1, 1, 0, 0]\<rparr>
      \<lparr>shape = [2, 1], vals = [2, 2]\<rparr> \<lparr>shape = [1], vals = [0]\<rparr>
     = Inr \<lparr>shape = [2, 1], vals = [3, 0]\<rparr>"
proof -
  have lin: "HiddenLayer_output \<lparr>shape = [2, 2], vals = [1, 1, 0, 0]\<rparr>
      \<lparr>shape = [2, 1], vals = [2, 2]\<rparr> \<lparr>shape = [1], vals = [0]\<rparr>
     = Inr \<lparr>shape = [2, 1], vals = [4, 0]\<rparr>"
    by (simp add: HiddenLayer_output_def dot_def add_bias_def upt_rec numeral_eq_Suc)
  with output_layer_rectifies [of 1 "\<lparr>shape = [2, 2], vals = [1, 1, 0, 0]\<rparr>"
      "\<lparr>shape = [2, 1], vals = [2, 2]\<rparr>" "\<lparr>shape = [1], vals = [0]\<rparr>"]
  show ?thesis by (simp add: tmap_def)
qed

section \<open>Properties of the batch lookup\<close>

text \<open>
  C9, as the code has it. When both arrays of a data set hold \<open>n\<close> batches, the lookup at
  an index \<open>i\<close> that fits in 64 bits returns the pair of batches at \<open>i\<close> for \<open>0 \<le> i < n\<close>,
  the pair counted from the end for \<open>-n \<le> i < 0\<close>, and fails with IndexError otherwise;
  an index outside \<open>[-2^63, 2^63)\<close> fails with OverflowError. \<^verbatim>\<open>get_data_dims\<close> checks
  \<open>0 \<le> idx < len(dims)\<close> by assertion and returns the entry \<open>dims[idx]\<close>.
\<close>

theorem batch_lookup:
  assumes "shape train_set_x = n # rx" and "shape train_set_y = n # ry"
  shows "givens (shared_dataset (train_set_x, train_set_y)) i =
           (if i < - (2 ^ 63) \<or> 2 ^ 63 \<le> i then Inl OverflowError
            else if - int n \<le> i \<and> i < int n
            then Inr (\<lparr>shape = rx,
                        vals = take (prod_list rx)
                                 (drop (nat (i mod int n) * prod_list rx) (vals train_set_x))\<rparr>,
                      \<lparr>shape = ry,
                        vals = take (prod_list ry)
                                 (drop (nat (i mod int n) * prod_list ry) (vals train_set_y))\<rparr>)
            else Inl IndexError) \<and>
         get_data_dims (Some ds) idx =
           (if 0 \<le> idx \<and> idx < int (length ds) then Inr (ds ! nat idx) else Inl AssertionError)"
proof -
  have neg: "int n + i = i mod int n" if "i < 0" "- int n \<le> i"
    using that by (smt (verit) mod_add_self1 mod_pos_pos_trivial)
  have pos: "i = i mod int n" if "0 \<le> i" "i < int n"
    using that by simp
  have dims: "get_data_dims (Some ds) idx =
           (if 0 \<le> idx \<and> idx < int (length ds) then Inr (ds ! nat idx) else Inl AssertionError)"
    by (simp add: get_data_dims_def)
  have "givens (shared_dataset (train_set_x, train_set_y)) i = Inl OverflowError"
    if "i < - (2 ^ 63) \<or> 2 ^ 63 \<le> i"
    using that by (simp add: givens_def)
  moreover have "givens (shared_dataset (train_set_x, train_set_y)) i =
           (if - int n \<le> i \<and> i < int n
            then Inr (\<lparr>shape = rx,
                        vals = take (prod_list rx)
                                 (drop (nat (i mod int n) * prod_list rx) (vals train_set_x))\<rparr>,
                      \<lparr>shape = ry,
                        vals = take (prod_list ry)
                                 (drop (nat (i mod int n) * prod_list ry) (vals train_set_y))\<rparr>)
            else Inl IndexError)"
    if inside: "\<not> (i < - (2 ^ 63) \<or> 2 ^ 63 \<le> i)"
  proof -
    have "givens (shared_dataset (train_set_x, train_set_y)) i =
            (case subtensor train_set_x i of
               Inl e \<Rightarrow> Inl e
             | Inr x \<Rightarrow> (case subtensor train_set_y i of Inl e \<Rightarrow> Inl e | Inr y \<Rightarrow> Inr (x, y)))"
      using inside by (simp add: givens_def shared_dataset_def)
    then show ?thesis
      using assms neg pos by (auto simp: subtensor_def Let_def)
  qed
  ultimately show ?thesis
    using dims by (simp only: if_True if_False split: if_splits) auto
qed

theorem batch_lookup_witness:
  "givens (shared_dataset (\<lparr>shape = [2, 1, 2], vals = [0, 0, 1, 1]\<rparr>,
                           \<lparr>shape = [2, 1, 1], vals = [0, 1]\<rparr>)) 0
     = Inr (\<lparr>shape = [1, 2], vals = [0, 0]\<rparr>, \<lparr>shape = [1, 1], vals = [0]\<rparr>) \<and>
   givens (shared_dataset (\<lparr>shape = [2, 1, 2], vals = [0, 0, 1, 1]\<rparr>,
                           \<lparr>shape = [2, 1, 1], vals = [0, 1]\<rparr>)) 2
     = Inl IndexError \<and>
   givens (shared_dataset (\<lparr>shape = [2, 1, 2], vals = [0, 0, 1, 1]\<rparr>,
                           \<lparr>shape = [2, 1, 1], vals = [0, 1]\<rparr>)) (2 ^ 63)
     = Inl OverflowError \<and>
   get_data_dims (Some [2, 1]) 1 = Inr 1 \<and>
   get_data_dims (Some [2, 1]) 2 = Inl AssertionError"
  using batch_lookup [of "\<lparr>shape = [2, 1, 2], vals = [0, 0, 1, 1]\<rparr>" 2 "[1, 2]"
      "\<lparr>shape = [2, 1, 1], vals = [0, 1]\<rparr>" "[1, 1]" 0 "[2, 1]" 1]
    batch_lookup [of "\<lparr>shape = [2, 1, 2], vals = [0, 0, 1, 1]\<rparr>" 2 "[1, 2]"
      "\<lparr>shape = [2, 1, 1], vals = [0, 1]\<rparr>" "[1, 1]" 2 "[2, 1]" 2]
    batch_lookup [of "\<lparr>shape = [2, 1, 2], vals = [0, 0, 1, 1]\<rparr>" 2 "[1, 2]"
      "\<lparr>shape = [2, 1, 1], vals = [0, 1]\<rparr>" "[1, 1]" "2 ^ 63" "[2, 1]" 2]
  by simp

text \<open>Index \<open>-1\<close> on a data set of two batches is outside \<open>[0, 2)\<close> and returns the last batch.\<close>

theorem negative_index_counterexample:
  "givens (shared_dataset (\<lparr>shape = [2, 1, 2], vals = [0, 0, 1, 1]\<rparr>,
                           \<lparr>shape = [2, 1, 1], vals = [0, 1]\<rparr>)) (- 1)
     = Inr (\<lparr>shape = [1, 2], vals = [1, 1]\<rparr>, \<lparr>shape = [1, 1], vals = [1]\<rparr>)"
  by (simp add: givens_def shared_dataset_def subtensor_def)

lemma get_data_dims_unset: "get_data_dims None idx = Inl AssertionError"
  by (simp add: get_data_dims_def)

section \<open>Properties of the training step\<close>

lemma updates_unfold:
  "updates learning_rate params (gparams grad params) =
     map (\<lambda>p. (p, \<lambda>s. elemwise (-) (s p) (tmap (\<lambda>v. learning_rate * v) (grad p s)))) params"
  by (induction params) (simp_all add: updates_def gparams_def)

lemma gd_elemwise:
  "shape g = shape p \<Longrightarrow>
     elemwise (-) p (tmap (\<lambda>v. learning_rate * v) g) = Inr (gd_value learning_rate p g)"
  by (simp add: elemwise_def tmap_def gd_value_def zip_map2 split_def)

lemma eval_updates_gd:
  assumes "\<forall>p\<in>set params. shape (grad p s) = shape (s p)"
  shows "eval_updates
           (map (\<lambda>p. (p, \<lambda>s. elemwise (-) (s p) (tmap (\<lambda>v. learning_rate * v) (grad p s))))
              params) s
         = Inr (map (\<lambda>p. (p, gd_value learning_rate (s p) (grad p s))) params)"
  using assms by (induction params) (simp_all add: gd_elemwise)

lemma assign_map:
  "assign (map (\<lambda>p. (p, f p)) params) s q = (if q \<in> set params then f q else s q)"
proof -
  have "fold (\<lambda>(p, v) s'. s'(p := v)) (map (\<lambda>p. (p, f p)) params) s0 q =
          (if q \<in> set params then f q else s0 q)" for s0
    by (induction params arbitrary: s0) auto
  then show ?thesis by (simp add: assign_def)
qed

lemma train_model_result:
  assumes "cost s = Inr c" and "\<forall>p\<in>set params. shape (grad p s) = shape (s p)"
  shows "train_model params cost grad learning_rate s =
           Inr (c, \<lambda>q. if q \<in> set params then gd_value learning_rate (s q) (grad q s) else s q)"
proof -
  have "assign (map (\<lambda>p. (p, gd_value learning_rate (s p) (grad p s))) params) s =
          (\<lambda>q. if q \<in> set params then gd_value learning_rate (s q) (grad q s) else s q)"
    by (rule ext) (simp add: assign_map)
  with assms show ?thesis
    by (simp add: train_model_def updates_unfold eval_updates_gd)
qed

lemma MLP_params_cover:
  "set MLP2_params = set HiddenLayer_params \<union> set OutputLayer_params"
  "set MLP3_params = UNIV"
proof -
  show "set MLP2_params = set HiddenLayer_params \<union> set OutputLayer_params"
    by (simp add: MLP2_params_def)
  have "p \<in> set MLP3_params" for p
    by (cases p)
      (simp_all add: MLP3_params_def HiddenLayer_params_def OutputLayer_params_def
        ConvolutionalLayer_params_def)
  then show "set MLP3_params = UNIV" by blast
qed

text \<open>
  C6. Let the cost evaluate and let every gradient have the shape of its parameter, as
  a gradient does. One call of \<open>train_model\<close> then returns the cost and stores, for every
  parameter \<open>p\<close> in the list, exactly \<open>p - learning_rate * g\<close> with \<open>g\<close> the gradient at the
  parameters before the call; nothing else changes. The list of example2.py holds the
  weights and biases of both its layers, the list of example3.py those of all three.
\<close>

theorem gradient_descent_step:
  assumes "cost s = Inr c" and "\<forall>p\<in>set params. shape (grad p s) = shape (s p)"
  shows "(\<exists>s'. train_model params cost grad learning_rate s = Inr (c, s') \<and>
           (\<forall>p\<in>set params. s' p = gd_value learning_rate (s p) (grad p s)) \<and>
           (\<forall>p. p \<notin> set params \<longrightarrow> s' p = s p)) \<and>
         set MLP2_params = set HiddenLayer_params \<union> set OutputLayer_params \<and>
         set MLP3_params = UNIV"
  using assms MLP_params_cover
    train_model_result [where cost = cost and s = s and c = c and params = params
      and grad = grad and learning_rate = learning_rate]
  by simp

theorem gradient_descent_step_witness:
  "\<exists>s'. train_model MLP2_params (\<lambda>_. Inr 0) (\<lambda>p s. s p) (1 / 2)
            (\<lambda>_. \<lparr>shape = [1], vals = [2]\<rparr>) = Inr (0, s') \<and>
         s' HiddenW = \<lparr>shape = [1], vals = [1]\<rparr> \<and> s' OutputB = \<lparr>shape = [1], vals = [1]\<rparr> \<and>
         s' ConvW = \<lparr>shape = [1], vals = [2]\<rparr>"
  using gradient_descent_step [of "\<lambda>_. Inr 0" "\<lambda>_. \<lparr>shape = [1], vals = [2]\<rparr>" 0 MLP2_params
      "\<lambda>p s. s p" "1 / 2"]
  by (auto simp: gd_value_def MLP2_params_def HiddenLayer_params_def OutputLayer_params_def)

section \<open>One step on the one-layer network\<close>

lemma W_values_2_1: "W_values 2 1 = Inr \<lparr>shape = [2, 1], vals = [2, 2]\<rparr>"
  by (simp add: W_values_def filled_def tmap_def upt_rec numeral_eq_Suc)

lemma b_values_1: "b_values 1 = Inr \<lparr>shape = [1], vals = [0]\<rparr>"
  by (simp add: b_values_def filled_def)

text \<open>On input \<open>[[1, 1]]\<close> and target \<open>[[0]]\<close> the cost is \<open>|w1 + w2 + c|\<close>.\<close>

lemma affine_cost_scenario:
  "affine_cost \<lparr>shape = [1, 2], vals = [1, 1]\<rparr> \<lparr>shape = [1, 1], vals = [0]\<rparr>
     (affine_store \<lparr>shape = [2, 1], vals = [w1, w2]\<rparr> \<lparr>shape = [1], vals = [c]\<rparr>)
   = Inr \<bar>w1 + w2 + c\<bar>"
  by (simp add: affine_cost_def affine_store_def HiddenLayer_output_def dot_def add_bias_def
      errors_def ndim_def elemwise_def T_mean_def upt_rec numeral_eq_Suc)

lemma affine_grad_scenario:
  "affine_grad \<lparr>shape = [1, 2], vals = [1, 1]\<rparr> \<lparr>shape = [1, 1], vals = [0]\<rparr> HiddenW
     (affine_store \<lparr>shape = [2, 1], vals = [2, 2]\<rparr> \<lparr>shape = [1], vals = [0]\<rparr>)
   = \<lparr>shape = [2, 1], vals = [1, 1]\<rparr>"
  "affine_grad \<lparr>shape = [1, 2], vals = [1, 1]\<rparr> \<lparr>shape = [1, 1], vals = [0]\<rparr> HiddenB
     (affine_store \<lparr>shape = [2, 1], vals = [2, 2]\<rparr> \<lparr>shape = [1], vals = [0]\<rparr>)
   = \<lparr>shape = [1], vals = [1]\<rparr>"
  by (simp_all add: affine_grad_def affine_store_def HiddenLayer_output_def dot_def add_bias_def
      Let_def upt_rec numeral_eq_Suc)

lemma abs_deriv:
  assumes "0 < w0 + a"
  shows "((\<lambda>w::real. \<bar>w + a\<bar>) has_real_derivative 1) (at w0)"
proof -
  have lin: "((\<lambda>w::real. w + a) has_real_derivative 1) (at w0)"
    by (auto intro!: derivative_eq_intros)
  have "\<forall>\<^sub>F w in nhds w0. \<bar>w + a\<bar> = w + a"
    unfolding eventually_nhds
    by (rule exI [of _ "{- a <..}"]) (use assms in auto)
  then show ?thesis
    using lin by (subst DERIV_cong_ev [OF refl _ refl]) auto
qed

text \<open>
  At the initial parameters the entries of \<open>affine_grad\<close> are the partial derivatives of
  the cost with respect to the two weights and the bias.
\<close>

lemma affine_grad_is_gradient:
  fixes x y s0 :: "_"
  defines "x \<equiv> \<lparr>shape = [1, 2], vals = [1, 1]\<rparr>" and "y \<equiv> \<lparr>shape = [1, 1], vals = [0]\<rparr>"
  defines "s0 \<equiv> affine_store \<lparr>shape = [2, 1], vals = [2, 2]\<rparr> \<lparr>shape = [1], vals = [0]\<rparr>"
  shows "((\<lambda>w. projr (affine_cost x y
              (affine_store \<lparr>shape = [2, 1], vals = [w, 2]\<rparr> \<lparr>shape = [1], vals = [0]\<rparr>)))
            has_real_derivative vals (affine_grad x y HiddenW s0) ! 0) (at 2)"
    and "((\<lambda>w. projr (affine_cost x y
              (affine_store \<lparr>shape = [2, 1], vals = [2, w]\<rparr> \<lparr>shape = [1], vals = [0]\<rparr>)))
            has_real_derivative vals (affine_grad x y HiddenW s0) ! 1) (at 2)"
    and "((\<lambda>c. projr (affine_cost x y
              (affine_store \<lparr>shape = [2, 1], vals = [2, 2]\<rparr> \<lparr>shape = [1], vals = [c]\<rparr>)))
            has_real_derivative vals (affine_grad x y HiddenB s0) ! 0) (at 0)"
proof -
  show "((\<lambda>w. projr (affine_cost x y
              (affine_store \<lparr>shape = [2, 1], vals = [w, 2]\<rparr> \<lparr>shape = [1], vals = [0]\<rparr>)))
            has_real_derivative vals (affine_grad x y HiddenW s0) ! 0) (at 2)"
    unfolding x_def y_def s0_def affine_cost_scenario affine_grad_scenario
    using abs_deriv [of 2 2] by simp
  show "((\<lambda>w. projr (affine_cost x y
              (affine_store \<lparr>shape = [2, 1], vals = [2, w]\<rparr> \<lparr>shape = [1], vals = [0]\<rparr>)))
            has_real_derivative vals (affine_grad x y HiddenW s0) ! 1) (at 2)"
    unfolding x_def y_def s0_def affine_cost_scenario affine_grad_scenario
    using abs_deriv [of 2 2] by (simp add: add.commute)
  show "((\<lambda>c. projr (affine_cost x y
              (affine_store \<lparr>shape = [2, 1], vals = [2, 2]\<rparr> \<lparr>shape = [1], vals = [c]\<rparr>)))
            has_real_derivative vals (affine_grad x y HiddenB s0) ! 0) (at 0)"
    unfolding x_def y_def s0_def affine_cost_scenario affine_grad_scenario
    using abs_deriv [of 0 4] by (simp add: add.commute)
qed

lemma step_scenario:
  "train_model HiddenLayer_params
       (affine_cost \<lparr>shape = [1, 2], vals = [1, 1]\<rparr> \<lparr>shape = [1, 1], vals = [0]\<rparr>)
       (affine_grad \<lparr>shape = [1, 2], vals = [1, 1]\<rparr> \<lparr>shape = [1, 1], vals = [0]\<rparr>)
       (2 / 100) (affine_store \<lparr>shape = [2, 1], vals = [2, 2]\<rparr> \<lparr>shape = [1], vals = [0]\<rparr>)
     = Inr (4, affine_store \<lparr>shape = [2, 1], vals = [198 / 100, 198 / 100]\<rparr>
                  \<lparr>shape = [1], vals = [- (2 / 100)]\<rparr>)"
proof -
  define x where "x = \<lparr>shape = [1, 2], vals = [1, 1]\<rparr>"
  define y where "y = \<lparr>shape = [1, 1], vals = [0]\<rparr>"
  define W where "W = \<lparr>shape = [2, 1], vals = [2, 2]\<rparr>"
  define b where "b = \<lparr>shape = [1], vals = [0]\<rparr>"
  have c: "affine_cost x y (affine_store W b) = Inr 4"
    unfolding x_def y_def W_def b_def using affine_cost_scenario [of 2 2 0] by simp
  have gW: "affine_grad x y HiddenW (affine_store W b) = \<lparr>shape = [2, 1], vals = [1, 1]\<rparr>"
    unfolding x_def y_def W_def b_def by (rule affine_grad_scenario)
  have gb: "affine_grad x y HiddenB (affine_store W b) = \<lparr>shape = [1], vals = [1]\<rparr>"
    unfolding x_def y_def W_def b_def by (rule affine_grad_scenario)
  have shapes: "\<forall>p\<in>set HiddenLayer_params.
      shape (affine_grad x y p (affine_store W b)) = shape (affine_store W b p)"
    by (simp add: HiddenLayer_params_def gW gb) (simp add: affine_store_def W_def b_def)
  have "(\<lambda>q. if q \<in> set HiddenLayer_params
              then gd_value (2 / 100) (affine_store W b q) (affine_grad x y q (affine_store W b))
              else affine_store W b q)
        = affine_store \<lparr>shape = [2, 1], vals = [198 / 100, 198 / 100]\<rparr>
            \<lparr>shape = [1], vals = [- (2 / 100)]\<rparr>"
  proof (rule ext)
    fix q
    have "gd_value (2 / 100) W \<lparr>shape = [2, 1], vals = [1, 1]\<rparr>
            = \<lparr>shape = [2, 1], vals = [198 / 100, 198 / 100]\<rparr>"
      by (simp add: gd_value_def W_def)
    moreover have "gd_value (2 / 100) b \<lparr>shape = [1], vals = [1]\<rparr>
            = \<lparr>shape = [1], vals = [- (2 / 100)]\<rparr>"
      by (simp add: gd_value_def b_def)
    ultimately show "(if q \<in> set HiddenLayer_params
              then gd_value (2 / 100) (affine_store W b q) (affine_grad x y q (affine_store W b))
              else affine_store W b q)
        = affine_store \<lparr>shape = [2, 1], vals = [198 / 100, 198 / 100]\<rparr>
            \<lparr>shape = [1], vals = [- (2 / 100)]\<rparr> q"
      by (cases q) (simp_all add: HiddenLayer_params_def gW gb, simp_all add: affine_store_def)
  qed
  with c shapes
    train_model_result [where cost = "affine_cost x y" and s = "affine_store W b" and c = 4
      and params = HiddenLayer_params and grad = "affine_grad x y" and learning_rate = "2 / 100"]
  show ?thesis
    unfolding x_def y_def W_def b_def by simp
qed

text \<open>
  C5. The one-layer network with the initial values of example2.py (every weight 2, bias
  0), input \<open>[[1, 1]]\<close>, target \<open>[[0]]\<close> and learning rate 0.02: the cost before the step
  is 4, the step stores weights 1.98 and bias -0.02, and the cost after it is 3.94,
  smaller in absolute value.
\<close>

theorem single_affine_step_reduces_cost:
  "\<exists>W b s1. W_values 2 1 = Inr W \<and> b_values 1 = Inr b \<and>
     train_model HiddenLayer_params
       (affine_cost \<lparr>shape = [1, 2], vals = [1, 1]\<rparr> \<lparr>shape = [1, 1], vals = [0]\<rparr>)
       (affine_grad \<lparr>shape = [1, 2], vals = [1, 1]\<rparr> \<lparr>shape = [1, 1], vals = [0]\<rparr>)
       (2 / 100) (affine_store W b) = Inr (4, s1) \<and>
     affine_cost \<lparr>shape = [1, 2], vals = [1, 1]\<rparr> \<lparr>shape = [1, 1], vals = [0]\<rparr> s1
       = Inr (394 / 100) \<and>
     \<bar>394 / 100\<bar> < \<bar>4 :: real\<bar>"
proof -
  have after: "affine_cost \<lparr>shape = [1, 2], vals = [1, 1]\<rparr> \<lparr>shape = [1, 1], vals = [0]\<rparr>
      (affine_store \<lparr>shape = [2, 1], vals = [198 / 100, 198 / 100]\<rparr>
         \<lparr>shape = [1], vals = [- (2 / 100)]\<rparr>)
      = Inr (394 / 100)"
    using affine_cost_scenario [of "198 / 100" "198 / 100" "- (2 / 100)"] by simp
  have "\<bar>394 / 100\<bar> < \<bar>4 :: real\<bar>" by simp
  with W_values_2_1 b_values_1 step_scenario after show ?thesis by blast
qed

end
